theory Spec2Isabelle
  imports Complex_Main
begin

section \<open>Numbers of the arrays\<close>

text \<open>
  The arrays of \<open>rao.py\<close> hold IEEE doubles. A double is modelled as a finite real, one of
  the two infinities, or NaN; the sign of a zero is not distinguished.
\<close>

datatype f64 = Fin real | PInf | NInf | NaN

text \<open>A complex double is a pair of doubles: real part, imaginary part.\<close>

type_synonym c128 = "f64 \<times> f64"

text \<open>The element type of an array. \<open>set_data\<close> stores the amplitude array with the type
  it is given in; the in-place product of \<open>scale\<close> depends on it.\<close>

datatype np_dtype = Int64 | Float64

text \<open>
  The arithmetic of the platform is a parameter of the model: \<open>rnd\<close> rounds the exact
  result of an arithmetic operation to a double (without bound on the exponent; overflow
  is decided afterwards), \<open>f_cos\<close>, \<open>f_sin\<close>, \<open>f_hypot\<close> and \<open>f_atan2\<close> are the functions
  of the mathematical library on finite arguments, and \<open>f_interp\<close> is the one-dimensional
  linear interpolation of the array library: the value at a target, from the points of
  an axis in ascending order. Nothing is assumed about them, so that what is proved for
  every \<open>numerics\<close> holds for the doubles of the machine as well as in exact arithmetic.
\<close>

record numerics =
  rnd :: "real \<Rightarrow> real"
  f_cos :: "real \<Rightarrow> real"
  f_sin :: "real \<Rightarrow> real"
  f_hypot :: "real \<Rightarrow> real \<Rightarrow> real"
  f_atan2 :: "real \<Rightarrow> real \<Rightarrow> real"
  f_interp :: "(real \<times> f64) list \<Rightarrow> real \<Rightarrow> f64"

text \<open>The largest finite double, \<open>(2 - 2^-52) * 2^1023\<close>.\<close>

definition max_f64 :: real where
  "max_f64 = 2 ^ 1024 - 2 ^ 971"

text \<open>The double that an operation with the exact result \<open>x\<close> returns.\<close>

definition fl :: "(real \<Rightarrow> real) \<Rightarrow> real \<Rightarrow> f64" where
  "fl r x = (let y = r x in
             if max_f64 < y then PInf else if y < - max_f64 then NInf else Fin y)"


fun f_sign :: "f64 \<Rightarrow> real" where
  "f_sign (Fin x) = sgn x"
| "f_sign PInf = 1"
| "f_sign NInf = - 1"
| "f_sign NaN = 0"

fun f_neg :: "f64 \<Rightarrow> f64" where
  "f_neg (Fin x) = Fin (- x)"
| "f_neg PInf = NInf"
| "f_neg NInf = PInf"
| "f_neg NaN = NaN"

text \<open>\<open>a + b\<close> and \<open>a * b\<close> on doubles.\<close>

definition f_add :: "(real \<Rightarrow> real) \<Rightarrow> f64 \<Rightarrow> f64 \<Rightarrow> f64" where
  "f_add r a b =
     (case (a, b) of
        (Fin x, Fin y) \<Rightarrow> fl r (x + y)
      | _ \<Rightarrow> if a = NaN \<or> b = NaN then NaN
             else if (a = PInf \<and> b = NInf) \<or> (a = NInf \<and> b = PInf) then NaN
             else if a = PInf \<or> b = PInf then PInf
             else NInf)"

definition f_mul :: "(real \<Rightarrow> real) \<Rightarrow> f64 \<Rightarrow> f64 \<Rightarrow> f64" where
  "f_mul r a b =
     (case (a, b) of
        (Fin x, Fin y) \<Rightarrow> fl r (x * y)
      | _ \<Rightarrow> if a = NaN \<or> b = NaN \<or> f_sign a * f_sign b = 0 then NaN
             else if 0 < f_sign a * f_sign b then PInf
             else NInf)"

text \<open>\<open>x < 0\<close> on a double: false for NaN.\<close>

fun f_negative :: "f64 \<Rightarrow> bool" where
  "f_negative (Fin x) = (x < 0)"
| "f_negative NInf = True"
| "f_negative v = False"

text \<open>An entry of an array of the given element type, read as a double.\<close>

definition as_f64 :: "(real \<Rightarrow> real) \<Rightarrow> np_dtype \<Rightarrow> f64 \<Rightarrow> f64" where
  "as_f64 r dt v =
     (case dt of Float64 \<Rightarrow> v
      | Int64 \<Rightarrow> (case v of Fin x \<Rightarrow> Fin (r x) | _ \<Rightarrow> v))"

subsection \<open>Elementwise operations on arrays\<close>

text \<open>\<open>-x + np.pi\<close> on an entry; \<open>np.pi\<close> is the double next to \<open>pi\<close>.\<close>

definition fneg_add_pi :: "numerics \<Rightarrow> f64 \<Rightarrow> f64" where
  "fneg_add_pi ar p = f_add (rnd ar) (f_neg p) (Fin (rnd ar pi))"

text \<open>\<open>np.exp(1j * p)\<close> on an entry: \<open>cos p + 1j * sin p\<close> for a finite \<open>p\<close>, and NaN in
  both parts otherwise (\<open>1j * p\<close> has the real part \<open>0 * p\<close>).\<close>

definition np_exp_1j :: "numerics \<Rightarrow> f64 \<Rightarrow> c128" where
  "np_exp_1j ar p =
     (case p of Fin x \<Rightarrow> (Fin (f_cos ar x), Fin (f_sin ar x)) | _ \<Rightarrow> (NaN, NaN))"

text \<open>\<open>np.angle(z)\<close> is \<open>arctan2(z.imag, z.real)\<close>, with its values at the infinities.\<close>

definition np_angle :: "numerics \<Rightarrow> c128 \<Rightarrow> f64" where
  "np_angle ar z =
     (case z of
        (Fin u, Fin v) \<Rightarrow> Fin (f_atan2 ar v u)
      | (NaN, y) \<Rightarrow> NaN
      | (x, NaN) \<Rightarrow> NaN
      | (PInf, Fin v) \<Rightarrow> Fin 0
      | (NInf, Fin v) \<Rightarrow> Fin (if v < 0 then - rnd ar pi else rnd ar pi)
      | (Fin u, PInf) \<Rightarrow> Fin (rnd ar (pi / 2))
      | (Fin u, NInf) \<Rightarrow> Fin (- rnd ar (pi / 2))
      | (PInf, PInf) \<Rightarrow> Fin (rnd ar (pi / 4))
      | (NInf, PInf) \<Rightarrow> Fin (rnd ar (3 * pi / 4))
      | (PInf, NInf) \<Rightarrow> Fin (- rnd ar (pi / 4))
      | (NInf, NInf) \<Rightarrow> Fin (- rnd ar (3 * pi / 4)))"






text \<open>\<open>np.mod(x, 360)\<close> on doubles. \<open>fmod(x, 360)\<close> is exact and has the sign of \<open>x\<close>;
  when it is negative, 360 is added to it, and this sum is rounded. In both cases the
  exact value of the result is \<open>x - 360 * floor (x / 360)\<close>.\<close>

definition np_mod360 :: "numerics \<Rightarrow> real \<Rightarrow> real" where
  "np_mod360 ar x =
     (let q = x - 360 * of_int \<lfloor>x / 360\<rfloor> in
      if x < 0 \<and> q \<noteq> 0 then rnd ar q else q)"

section \<open>Data model of \<open>mafredo/rao.py\<close>\<close>

text \<open>
  The class \<open>Rao\<close> holds an xarray \<open>Dataset\<close> (\<open>self._data\<close>) and a tag \<open>self.mode\<close>.
  The dataset has the two coordinates \<open>wave_direction\<close> and \<open>omega\<close>, the two data
  variables \<open>amplitude\<close> and \<open>phase\<close>, both indexed \<open>[iDirection][iOmega]\<close>, and, while
  it is stored, the data variable \<open>complex_unit\<close>. The labels of the two axes are finite
  numbers. The phase and the complex unit are arrays of doubles; for the amplitude the
  element type is part of the model.
\<close>

datatype py_error = ValueError | NameError | KeyError | AssertionError | TypeError | NotScalar

datatype MotionMode = SURGE | SWAY | HEAVE | ROLL | PITCH | YAW

text \<open>The attribute \<open>mode\<close> is \<open>None\<close>, a \<open>MotionMode\<close>, or any other Python value.\<close>

datatype py_mode = PyNone | Mode MotionMode | PyOther string

record dataset =
  wave_direction :: "real list"
  omega :: "real list"
  amplitude :: "f64 list list"
  amplitude_dtype :: np_dtype
  phase :: "f64 list list"
  complex_unit :: "c128 list list option"

record Rao =
  data :: dataset
  mode :: py_mode

text \<open>Shape of a dataset: every data variable is a dense
  \<open>len(wave_direction) \<times> len(omega)\<close> array (xarray keeps this for every dataset).\<close>

definition shape_ok :: "nat \<Rightarrow> nat \<Rightarrow> 'a list list \<Rightarrow> bool" where
  "shape_ok n m rows = (length rows = n \<and> list_all (\<lambda>row. length row = m) rows)"

definition dataset_ok :: "dataset \<Rightarrow> bool" where
  "dataset_ok ds =
     (shape_ok (length (wave_direction ds)) (length (omega ds)) (amplitude ds) \<and>
      shape_ok (length (wave_direction ds)) (length (omega ds)) (phase ds) \<and>
      (case complex_unit ds of None \<Rightarrow> True
       | Some cu \<Rightarrow> shape_ok (length (wave_direction ds)) (length (omega ds)) cu))"

text \<open>The part of the shape that the heading axis fixes: every data variable has one
  entry per heading.\<close>

definition outer_ok :: "dataset \<Rightarrow> bool" where
  "outer_ok ds = (length (amplitude ds) = length (wave_direction ds) \<and>
     length (phase ds) = length (wave_direction ds) \<and>
     (case complex_unit ds of None \<Rightarrow> True | Some cu \<Rightarrow> length cu = length (wave_direction ds)))"

text \<open>\<open>Rao.__init__\<close>: the dummy 2 x 2 grid of zeros (\<open>dtype=float\<close>), mode \<open>None\<close>.\<close>

definition Rao_init :: Rao where
  "Rao_init =
     \<lparr> data = \<lparr> wave_direction = [0, 180], omega = [0, 4],
                amplitude = [[Fin 0, Fin 0], [Fin 0, Fin 0]],
                amplitude_dtype = Float64,
                phase = [[Fin 0, Fin 0], [Fin 0, Fin 0]],
                complex_unit = None \<rparr>,
       mode = PyNone \<rparr>"

text \<open>\<open>Rao.scale\<close>: raises \<open>ValueError\<close> for a negative factor. Otherwise the amplitude
  is multiplied in place, \<open>self._data['amplitude'] *= factor\<close>, where \<open>factor\<close> is a Python
  float: for an array of integers the product is an array of doubles, which the in-place
  operation refuses to cast back (\<open>UFuncTypeError\<close>, a \<open>TypeError\<close>).\<close>

definition scale :: "numerics \<Rightarrow> Rao \<Rightarrow> f64 \<Rightarrow> py_error + Rao" where
  "scale ar self factor =
     (if f_negative factor then Inl ValueError
      else if amplitude_dtype (data self) = Int64 then Inl TypeError
      else Inr (self\<lparr> data := (data self)\<lparr> amplitude :=
                  map (map (\<lambda>a. f_mul (rnd ar) a factor)) (amplitude (data self)) \<rparr> \<rparr>))"

text \<open>\<open>Rao.set_data\<close>: the dataset is built from the arrays as they are given; xarray
  raises \<open>ValueError\<close> when the shape of an array does not fit the two axes. Nothing else
  is checked, and the argument \<open>mode\<close> is not used.\<close>

definition set_data ::
    "Rao \<Rightarrow> real list \<Rightarrow> real list \<Rightarrow> np_dtype \<Rightarrow> f64 list list \<Rightarrow> f64 list list \<Rightarrow> py_mode
       \<Rightarrow> py_error + Rao" where
  "set_data self directions omegas dt amplitude0 phase0 mode0 =
     (if shape_ok (length directions) (length omegas) amplitude0 \<and>
         shape_ok (length directions) (length omegas) phase0
      then Inr (self\<lparr> data := \<lparr> wave_direction = directions, omega = omegas,
                                 amplitude = amplitude0, amplitude_dtype = dt,
                                 phase = phase0, complex_unit = None \<rparr> \<rparr>)
      else Inl ValueError)"

subsection \<open>Selection, concatenation and sorting along an axis (xarray)\<close>

text \<open>The position of the first occurrence of a label on an axis.\<close>

fun first_index :: "real list \<Rightarrow> real \<Rightarrow> nat" where
  "first_index [] x = 0"
| "first_index (y # ys) x = (if y = x then 0 else Suc (first_index ys x))"

text \<open>\<open>ds.sel(wave_direction=d)\<close>: the slice of every data variable at the label \<open>d\<close>,
  with \<open>d\<close> as scalar coordinate. A label that is absent raises \<open>KeyError\<close>. A label
  that occurs more than once selects an array of slices instead of one slice; the
  model covers axes of distinct labels and returns \<open>NotScalar\<close> there.\<close>

record column =
  col_wave_direction :: real
  col_amplitude :: "f64 list"
  col_phase :: "f64 list"
  col_complex_unit :: "c128 list option"

definition sel_wave_direction :: "dataset \<Rightarrow> real \<Rightarrow> py_error + column" where
  "sel_wave_direction ds d =
     (if count_list (wave_direction ds) d = 0 then Inl KeyError
      else if count_list (wave_direction ds) d = 1 then
        (let i = first_index (wave_direction ds) d in
         Inr \<lparr> col_wave_direction = d,
               col_amplitude = amplitude ds ! i,
               col_phase = phase ds ! i,
               col_complex_unit = map_option (\<lambda>cu. cu ! i) (complex_unit ds) \<rparr>)
      else Inl NotScalar)"

text \<open>\<open>xr.concat([ds, sym], dim='wave_direction')\<close>: the slice becomes the last entry
  along the heading axis of every variable.\<close>

definition concat_wave_direction :: "dataset \<Rightarrow> column \<Rightarrow> dataset" where
  "concat_wave_direction ds c =
     ds\<lparr> wave_direction := wave_direction ds @ [col_wave_direction c],
         amplitude := amplitude ds @ [col_amplitude c],
         phase := phase ds @ [col_phase c],
         complex_unit :=
           (case complex_unit ds of None \<Rightarrow> None
            | Some cu \<Rightarrow> (case col_complex_unit c of None \<Rightarrow> None
                          | Some r \<Rightarrow> Some (cu @ [r]))) \<rparr>"

text \<open>\<open>ds.sortby(axis)\<close>: a stable argsort of the axis, then every array is indexed
  with the resulting permutation.\<close>

definition argsort :: "real list \<Rightarrow> nat list" where
  "argsort xs = sort_key (\<lambda>i. xs ! i) [0..<length xs]"

definition isel :: "nat list \<Rightarrow> 'a list \<Rightarrow> 'a list" where
  "isel idx xs = map (\<lambda>i. xs ! i) idx"

definition sortby_wave_direction :: "dataset \<Rightarrow> dataset" where
  "sortby_wave_direction ds =
     (let perm = argsort (wave_direction ds) in
      ds\<lparr> wave_direction := isel perm (wave_direction ds),
          amplitude := isel perm (amplitude ds),
          phase := isel perm (phase ds),
          complex_unit := map_option (isel perm) (complex_unit ds) \<rparr>)"

definition sortby_omega :: "dataset \<Rightarrow> dataset" where
  "sortby_omega ds =
     (let perm = argsort (omega ds) in
      ds\<lparr> omega := isel perm (omega ds),
          amplitude := map (isel perm) (amplitude ds),
          phase := map (isel perm) (phase ds),
          complex_unit := map_option (map (isel perm)) (complex_unit ds) \<rparr>)"

subsection \<open>\<open>Rao.add_symmetry_xz\<close>\<close>

text \<open>The loop over \<open>directions\<close>, the heading axis as it was before the loop. The
  membership test reads this fixed array; the selection reads the dataset as
  extended so far.\<close>

fun symmetry_loop ::
    "numerics \<Rightarrow> bool \<Rightarrow> real list \<Rightarrow> real list \<Rightarrow> dataset \<Rightarrow> py_error + dataset" where
  "symmetry_loop ar opposite directions [] ds = Inr ds"
| "symmetry_loop ar opposite directions (direction # rest) ds =
     (let direction_copy = np_mod360 ar (- direction) in
      if direction_copy \<in> set directions then symmetry_loop ar opposite directions rest ds
      else
        (case sel_wave_direction ds direction of
           Inl e \<Rightarrow> Inl e
         | Inr sym0 \<Rightarrow>
             (let sym1 = sym0\<lparr> col_wave_direction := direction_copy \<rparr>;
                  sym2 = (if opposite
                          then sym1\<lparr> col_phase := map (fneg_add_pi ar) (col_phase sym1) \<rparr>
                          else sym1)
              in symmetry_loop ar opposite directions rest (concat_wave_direction ds sym2))))"

text \<open>In the last branch the message of the \<open>ValueError\<close> is formatted from the name
  \<open>mode\<close>, which is bound neither in the method nor in the module: evaluating the
  argument raises \<open>NameError\<close> before the \<open>ValueError\<close> is built.\<close>

definition add_symmetry_xz :: "numerics \<Rightarrow> Rao \<Rightarrow> py_error + Rao" where
  "add_symmetry_xz ar self =
     (if mode self \<in> {Mode SWAY, Mode ROLL, Mode YAW} then
        (case symmetry_loop ar True (wave_direction (data self)) (wave_direction (data self)) (data self) of
           Inl e \<Rightarrow> Inl e
         | Inr ds \<Rightarrow> Inr (self\<lparr> data := sortby_wave_direction ds \<rparr>))
      else if mode self \<in> {Mode SURGE, Mode HEAVE, Mode PITCH} then
        (case symmetry_loop ar False (wave_direction (data self)) (wave_direction (data self)) (data self) of
           Inl e \<Rightarrow> Inl e
         | Inr ds \<Rightarrow> Inr (self\<lparr> data := sortby_wave_direction ds \<rparr>))
      else Inl NameError)"

text \<open>The loop in closed form: one mirrored slice is appended for every entry of
  \<open>todo\<close> whose mirror is not on the original axis, in the order of \<open>todo\<close>.\<close>

definition append_mirrors ::
    "numerics \<Rightarrow> bool \<Rightarrow> real list \<Rightarrow> real list \<Rightarrow> dataset \<Rightarrow> dataset" where
  "append_mirrors ar opposite directions todo ds =
     (let new = filter (\<lambda>d. np_mod360 ar (- d) \<notin> set directions) todo in
      ds\<lparr> wave_direction := wave_direction ds @ map (\<lambda>d. np_mod360 ar (- d)) new,
          amplitude := amplitude ds @ map (\<lambda>d. amplitude ds ! first_index directions d) new,
          phase := phase ds @
            map (\<lambda>d. if opposite then map (fneg_add_pi ar) (phase ds ! first_index directions d)
                      else phase ds ! first_index directions d) new,
          complex_unit :=
            map_option (\<lambda>cu. cu @ map (\<lambda>d. cu ! first_index directions d) new)
              (complex_unit ds) \<rparr>)"

subsection \<open>The complex unit and the export without complex numbers\<close>

text \<open>\<open>_complex_unit_add(data)\<close>: stores \<open>exp(1j * phase)\<close> as the variable
  \<open>complex_unit\<close> of the dataset it is given.\<close>

definition complex_unit_add :: "numerics \<Rightarrow> dataset \<Rightarrow> dataset" where
  "complex_unit_add ar ds = ds\<lparr> complex_unit := Some (map (map (np_exp_1j ar)) (phase ds)) \<rparr>"

text \<open>\<open>_complex_unit_delete(data)\<close>: \<open>drop_vars\<close> raises \<open>ValueError\<close> for a variable that
  the dataset does not hold.\<close>

definition complex_unit_delete :: "dataset \<Rightarrow> py_error + dataset" where
  "complex_unit_delete ds =
     (case complex_unit ds of None \<Rightarrow> Inl ValueError
      | Some cu \<Rightarrow> Inr (ds\<lparr> complex_unit := None \<rparr>))"

text \<open>\<open>_complex_unit_to_phase(data)\<close>: the phase is overwritten with the angle of the
  complex unit; reading a variable that is absent raises \<open>KeyError\<close>.\<close>

definition complex_unit_to_phase :: "numerics \<Rightarrow> dataset \<Rightarrow> py_error + dataset" where
  "complex_unit_to_phase ar ds =
     (case complex_unit ds of None \<Rightarrow> Inl KeyError
      | Some cu \<Rightarrow> Inr (ds\<lparr> phase := map (map (np_angle ar)) cu \<rparr>))"





subsection \<open>Linear interpolation along an axis (\<open>Dataset.interp\<close>)\<close>

text \<open>One row of doubles, and one row of complex doubles, interpolated at the targets
  \<open>new\<close> over the axis \<open>xs\<close>; a complex row is interpolated part by part.\<close>

definition interp_row :: "numerics \<Rightarrow> real list \<Rightarrow> real list \<Rightarrow> f64 list \<Rightarrow> f64 list" where
  "interp_row ar xs new ys = map (f_interp ar (zip xs ys)) new"

definition interp_row_c :: "numerics \<Rightarrow> real list \<Rightarrow> real list \<Rightarrow> c128 list \<Rightarrow> c128 list" where
  "interp_row_c ar xs new zs =
     map (\<lambda>x. (f_interp ar (zip xs (map fst zs)) x, f_interp ar (zip xs (map snd zs)) x)) new"

text \<open>\<open>ds.interp(omega=new_omega, method='linear')\<close>: the dataset is sorted by the axis
  first; every variable is interpolated along the axis and is an array of doubles
  afterwards; the axis of the result is \<open>new_omega\<close>, in the order given.\<close>

definition interp_omega :: "numerics \<Rightarrow> dataset \<Rightarrow> real list \<Rightarrow> dataset" where
  "interp_omega ar ds0 new_omega =
     (let ds = sortby_omega ds0 in
      ds\<lparr> omega := new_omega,
          amplitude := map (\<lambda>row. interp_row ar (omega ds) new_omega
                              (map (as_f64 (rnd ar) (amplitude_dtype ds)) row)) (amplitude ds),
          amplitude_dtype := Float64,
          phase := map (interp_row ar (omega ds) new_omega) (phase ds),
          complex_unit := map_option (map (interp_row_c ar (omega ds) new_omega)) (complex_unit ds) \<rparr>)"




subsection \<open>The helpers of \<open>mafredo.helpers\<close>\<close>

text \<open>A copy of the entries at the label \<open>src\<close> of an axis is appended at the label \<open>v\<close>.\<close>

definition dup_omega :: "dataset \<Rightarrow> real \<Rightarrow> real \<Rightarrow> dataset" where
  "dup_omega ds src v =
     (let i = first_index (omega ds) src in
      ds\<lparr> omega := omega ds @ [v],
          amplitude := map (\<lambda>row. row @ [row ! i]) (amplitude ds),
          phase := map (\<lambda>row. row @ [row ! i]) (phase ds),
          complex_unit := map_option (map (\<lambda>row. row @ [row ! i])) (complex_unit ds) \<rparr>)"


text \<open>Modelled from the spec: \<open>expand_omega_dim_const\<close> of \<open>mafredo.helpers\<close>, which is
  imported by \<open>rao.py\<close> and not part of the sources. The frequency axis is extended so
  that its range covers the smallest and the largest target: if the smallest target
  is below the lowest frequency, the entries at the lowest frequency are duplicated at
  that target, and if the largest target is above the highest frequency, the entries at
  the highest frequency are duplicated at that target.\<close>

definition expand_omega_dim_const :: "dataset \<Rightarrow> real list \<Rightarrow> dataset" where
  "expand_omega_dim_const ds new_omega =
     (if new_omega = [] \<or> omega ds = [] then ds
      else
        (let lo = Min (set (omega ds)); hi = Max (set (omega ds));
             ds1 = (if Min (set new_omega) < lo then dup_omega ds lo (Min (set new_omega)) else ds)
         in if hi < Max (set new_omega) then dup_omega ds1 hi (Max (set new_omega)) else ds1))"


subsection \<open>\<open>Rao.regrid_omega\<close>, \<open>Rao.regrid_direction\<close> and the insertion of points\<close>

text \<open>\<open>regrid_omega\<close> passes \<open>new_omega\<close> to \<open>interp\<close> as it is given.\<close>

definition regrid_omega :: "numerics \<Rightarrow> Rao \<Rightarrow> real list \<Rightarrow> py_error + Rao" where
  "regrid_omega ar self new_omega =
     (let temp = complex_unit_add ar (expand_omega_dim_const (data self) new_omega);
          d1 = interp_omega ar temp new_omega
      in case complex_unit_to_phase ar d1 of
           Inl e \<Rightarrow> Inl e
         | Inr d2 \<Rightarrow> (case complex_unit_delete d2 of
                        Inl e \<Rightarrow> Inl e
                      | Inr d3 \<Rightarrow> Inr (self\<lparr> data := d3 \<rparr>)))"




subsection \<open>\<open>Rao.get_value\<close>\<close>



subsection \<open>Exact arithmetic\<close>

text \<open>The value at \<open>x\<close> on the segment from \<open>(x0, y0)\<close> to \<open>(x1, y1)\<close>, computed without
  rounding as \<open>y0 + t * (y1 - y0)\<close> with the weight \<open>t = (x - x0) / (x1 - x0)\<close>; a segment
  of length 0 gives NaN.\<close>

definition lin :: "real \<Rightarrow> f64 \<Rightarrow> real \<Rightarrow> f64 \<Rightarrow> real \<Rightarrow> f64" where
  "lin x0 y0 x1 y1 x =
     (if x1 = x0 then NaN
      else f_add (\<lambda>v. v) y0
             (f_mul (\<lambda>v. v) (Fin ((x - x0) / (x1 - x0))) (f_add (\<lambda>v. v) y1 (f_neg y0))))"

text \<open>One-dimensional linear interpolation over the points of an axis in ascending
  order, without extrapolation: a target below the first or above the last point gives
  NaN. A target that is a point of the axis is served by the segment that ends there
  (by the first segment, for the first point).\<close>

fun linear_interp :: "(real \<times> f64) list \<Rightarrow> real \<Rightarrow> f64" where
  "linear_interp [] x = NaN"
| "linear_interp [p] x = NaN"
| "linear_interp ((x0, y0) # (x1, y1) # ps) x =
     (if x < x0 then NaN
      else if x \<le> x1 then lin x0 y0 x1 y1 x
      else linear_interp ((x1, y1) # ps) x)"

text \<open>The numerics without rounding: every operation returns its exact result.\<close>

definition exact :: numerics where
  "exact = \<lparr> rnd = (\<lambda>x. x), f_cos = cos, f_sin = sin,
             f_hypot = (\<lambda>x y. sqrt (x\<^sup>2 + y\<^sup>2)),
             f_atan2 = (\<lambda>y x. Arg (Complex x y)),
             f_interp = linear_interp \<rparr>"

subsection \<open>Example grids\<close>

text \<open>A ROLL grid with the single heading 30 and a single frequency.\<close>

definition roll30 :: Rao where
  "roll30 = \<lparr> data = \<lparr> wave_direction = [30], omega = [1],
                amplitude = [[Fin 2]], amplitude_dtype = Float64,
                phase = [[Fin 1]], complex_unit = None \<rparr>,
       mode = Mode ROLL \<rparr>"

text \<open>A HEAVE grid with the single heading -30 and a single frequency.\<close>

definition heave_m30 :: Rao where
  "heave_m30 = \<lparr> data = \<lparr> wave_direction = [- 30], omega = [1],
                amplitude = [[Fin 2]], amplitude_dtype = Float64,
                phase = [[Fin 1]], complex_unit = None \<rparr>,
       mode = Mode HEAVE \<rparr>"


text \<open>The grid that \<open>set_data([30], [1], [[2]], [[1.0]])\<close> builds: the amplitude, given
  as a list of Python integers, is stored as an array of integers.\<close>

definition int_grid :: Rao where
  "int_grid = \<lparr> data = \<lparr> wave_direction = [30], omega = [1],
                amplitude = [[Fin 2]], amplitude_dtype = Int64,
                phase = [[Fin 1]], complex_unit = None \<rparr>,
       mode = PyNone \<rparr>"


section \<open>Auxiliary lemmas\<close>

subsection \<open>Labels, selection and sorting\<close>
lemma first_index_less: "x \<in> set xs \<Longrightarrow> first_index xs x < length xs"
  by (induction xs) auto

lemma nth_first_index: "x \<in> set xs \<Longrightarrow> xs ! first_index xs x = x"
  by (induction xs) auto

lemma first_index_append: "x \<in> set xs \<Longrightarrow> first_index (xs @ ys) x = first_index xs x"
  by (induction xs) auto

lemma first_index_nth: "distinct xs \<Longrightarrow> i < length xs \<Longrightarrow> first_index xs (xs ! i) = i"
proof (induction xs arbitrary: i)
  case Nil
  then show ?case by simp
next
  case (Cons a xs)
  then show ?case by (cases i) auto
qed

lemma count_list_distinct: "distinct xs \<Longrightarrow> x \<in> set xs \<Longrightarrow> count_list xs x = 1"
  by (induction xs) auto

lemma sel_wave_direction_prefix:
  assumes "distinct D" "d \<in> set D" "wave_direction ds = D @ E" "set E \<inter> set D = {}"
  shows "sel_wave_direction ds d =
           Inr \<lparr> col_wave_direction = d,
                 col_amplitude = amplitude ds ! first_index D d,
                 col_phase = phase ds ! first_index D d,
                 col_complex_unit = map_option (\<lambda>cu. cu ! first_index D d) (complex_unit ds) \<rparr>"
proof -
  from assms have "d \<notin> set E" by auto
  with assms have "count_list (wave_direction ds) d = 1"
    by (simp add: count_list_distinct)
  moreover have "first_index (wave_direction ds) d = first_index D d"
    using assms by (simp add: first_index_append)
  ultimately show ?thesis by (simp add: sel_wave_direction_def Let_def)
qed

lemma map_nth_snoc_first_index:
  assumes "set ks \<subseteq> set D" "length D \<le> length xs"
  shows "map (\<lambda>k. g ((xs @ [x]) ! first_index D k)) ks = map (\<lambda>k. g (xs ! first_index D k)) ks"
proof (rule map_cong[OF refl])
  fix k assume "k \<in> set ks"
  then have "first_index D k < length xs"
    using assms first_index_less[of k D] by auto
  then show "g ((xs @ [x]) ! first_index D k) = g (xs ! first_index D k)"
    by (simp add: nth_append)
qed

lemma append_mirrors_Nil: "append_mirrors ar opp D [] ds = ds"
  by (simp add: append_mirrors_def option.map_ident)

lemma symmetry_loop_closed_form:
  assumes "distinct D" "set todo \<subseteq> set D"
    and "wave_direction ds = D @ E" "set E \<inter> set D = {}"
    and "length D \<le> length (amplitude ds)" "length D \<le> length (phase ds)"
    and "case complex_unit ds of None \<Rightarrow> True | Some cu \<Rightarrow> length D \<le> length cu"
  shows "symmetry_loop ar opp D todo ds = Inr (append_mirrors ar opp D todo ds)"
  using assms
proof (induction todo arbitrary: ds E)
  case Nil
  then show ?case by (simp add: append_mirrors_Nil)
next
  case (Cons d rest)
  show ?case
  proof (cases "np_mod360 ar (- d) \<in> set D")
    case True
    have "symmetry_loop ar opp D rest ds = Inr (append_mirrors ar opp D rest ds)"
      using Cons.prems by (intro Cons.IH[where E = E]) auto
    with True show ?thesis by (simp add: append_mirrors_def)
  next
    case False
    let ?i = "first_index D d"
    have dD: "d \<in> set D" using Cons.prems by simp
    have i: "?i < length D" using dD by (rule first_index_less)
    define c where "c = \<lparr> col_wave_direction = np_mod360 ar (- d),
                 col_amplitude = amplitude ds ! ?i,
                 col_phase = (if opp then map (fneg_add_pi ar) (phase ds ! ?i) else phase ds ! ?i),
                 col_complex_unit = map_option (\<lambda>cu. cu ! ?i) (complex_unit ds) \<rparr>"
    define ds' where "ds' = concat_wave_direction ds c"
    have sel: "sel_wave_direction ds d =
           Inr \<lparr> col_wave_direction = d,
                 col_amplitude = amplitude ds ! ?i,
                 col_phase = phase ds ! ?i,
                 col_complex_unit = map_option (\<lambda>cu. cu ! ?i) (complex_unit ds) \<rparr>"
      using Cons.prems dD by (intro sel_wave_direction_prefix[where E = E]) auto
    have step: "symmetry_loop ar opp D (d # rest) ds = symmetry_loop ar opp D rest ds'"
      using False sel by (simp add: ds'_def c_def Let_def)
    have wd': "wave_direction ds' = D @ (E @ [np_mod360 ar (- d)])"
      using Cons.prems by (simp add: ds'_def c_def concat_wave_direction_def)
    have IH: "symmetry_loop ar opp D rest ds' = Inr (append_mirrors ar opp D rest ds')"
    proof (rule Cons.IH[where E = "E @ [np_mod360 ar (- d)]"])
      show "distinct D" by fact
      show "set rest \<subseteq> set D" using Cons.prems by simp
      show "wave_direction ds' = D @ E @ [np_mod360 ar (- d)]" using wd' by simp
      show "set (E @ [np_mod360 ar (- d)]) \<inter> set D = {}" using Cons.prems False by auto
      show "length D \<le> length (amplitude ds')"
        using Cons.prems by (simp add: ds'_def concat_wave_direction_def)
      show "length D \<le> length (phase ds')"
        using Cons.prems by (simp add: ds'_def concat_wave_direction_def)
      show "case complex_unit ds' of None \<Rightarrow> True | Some cu \<Rightarrow> length D \<le> length cu"
        using Cons.prems
        by (auto simp: ds'_def c_def concat_wave_direction_def split: option.splits)
    qed
    define new where "new = filter (\<lambda>d. np_mod360 ar (- d) \<notin> set D) rest"
    have new: "set new \<subseteq> set D" using Cons.prems(2) by (auto simp: new_def)
    note keep = map_nth_snoc_first_index[OF new, where g = "\<lambda>r. r"]
      map_nth_snoc_first_index[OF new, where g = "map (fneg_add_pi ar)"]
    have eq: "append_mirrors ar opp D rest ds' = append_mirrors ar opp D (d # rest) ds"
      using False Cons.prems(5,6,7)
      by (cases "complex_unit ds")
         (simp_all add: append_mirrors_def ds'_def c_def concat_wave_direction_def
            new_def[symmetric] keep)
    show ?thesis using step IH eq by simp
  qed
qed


lemma argsort_set: "set (argsort xs) = {0..<length xs}"
  by (simp add: argsort_def)

lemma argsort_length: "length (argsort xs) = length xs"
  by (simp add: argsort_def)

lemma argsort_distinct: "distinct (argsort xs)"
  by (simp add: argsort_def)

lemma isel_nth_ex:
  assumes "k < length xs" "length xs = length ks"
  shows "\<exists>j < length (argsort ks). argsort ks ! j = k"
proof -
  have "k \<in> set (argsort ks)" using assms by (simp add: argsort_set)
  then show ?thesis by (simp add: in_set_conv_nth)
qed

lemma add_symmetry_xz_closed_form:
  assumes ok: "dataset_ok (data self)"
    and dist: "distinct (wave_direction (data self))"
    and m: "mode self = Mode m"
  shows "add_symmetry_xz ar self =
           Inr (self\<lparr> data := sortby_wave_direction
                  (append_mirrors ar (m \<in> {SWAY, ROLL, YAW})
                     (wave_direction (data self)) (wave_direction (data self)) (data self)) \<rparr>)"
proof -
  let ?D = "wave_direction (data self)"
  have loop: "symmetry_loop ar opp ?D ?D (data self) = Inr (append_mirrors ar opp ?D ?D (data self))" for opp
    using ok dist
    by (intro symmetry_loop_closed_form[where E = "[]"])
       (auto simp: dataset_ok_def shape_ok_def split: option.splits)
  show ?thesis
    using m by (cases m) (simp_all add: add_symmetry_xz_def loop)
qed

lemma isel_argsort_sorted:
  assumes "sorted ks" "length xs = length ks"
  shows "isel (argsort ks) xs = xs"
proof -
  have "sorted (map (\<lambda>i. ks ! i) [0..<length ks])" using assms(1) by (simp add: map_nth)
  then have "argsort ks = [0..<length ks]"
    unfolding argsort_def by (rule sort_key_id_if_sorted)
  moreover have "map (\<lambda>i. xs ! i) [0..<length xs] = xs" by (rule map_nth)
  ultimately show ?thesis using assms(2) by (simp add: isel_def)
qed

lemma isel_argsort_set: "length xs = length ks \<Longrightarrow> set (isel (argsort ks) xs) = set xs"
proof -
  assume l: "length xs = length ks"
  have "set (isel (argsort ks) xs) = (\<lambda>i. xs ! i) ` {0..<length ks}"
    by (simp add: isel_def argsort_set)
  also have "\<dots> = set xs" using l nth_image[of "length xs" xs] by simp
  finally show ?thesis .
qed

lemma isel_argsort_distinct:
  assumes "distinct xs" "length xs = length ks"
  shows "distinct (isel (argsort ks) xs)"
proof -
  have "inj_on (nth xs) (set (argsort ks))"
    using assms by (intro inj_on_nth) (auto simp: argsort_set)
  then show ?thesis by (simp add: isel_def distinct_map argsort_distinct)
qed

lemma isel_argsort_self_sorted: "sorted (isel (argsort ks) ks)"
  unfolding isel_def argsort_def by (rule sorted_sort_key)

lemma isel_length: "length (isel p xs) = length p"
  by (simp add: isel_def)

lemma append_mirrors_nothing:
  assumes "\<forall>d \<in> set D. np_mod360 ar (- d) \<in> set D"
  shows "append_mirrors ar opp D D ds = ds"
proof -
  have "filter (\<lambda>d. np_mod360 ar (- d) \<notin> set D) D = []"
    using assms by (simp add: filter_empty_conv)
  then show ?thesis by (simp add: append_mirrors_def option.map_ident)
qed

lemma sortby_wave_direction_sorted:
  assumes "sorted (wave_direction ds)"
    and "length (amplitude ds) = length (wave_direction ds)"
    and "length (phase ds) = length (wave_direction ds)"
    and "case complex_unit ds of None \<Rightarrow> True | Some cu \<Rightarrow> length cu = length (wave_direction ds)"
  shows "sortby_wave_direction ds = ds"
  using assms
  by (cases "complex_unit ds") (simp_all add: sortby_wave_direction_def Let_def isel_argsort_sorted)

lemma append_mirrors_sel:
  "wave_direction (append_mirrors ar opp D todo ds) =
     wave_direction ds @ map (\<lambda>d. np_mod360 ar (- d)) (filter (\<lambda>d. np_mod360 ar (- d) \<notin> set D) todo)"
  "length (amplitude (append_mirrors ar opp D todo ds)) =
     length (amplitude ds) + length (filter (\<lambda>d. np_mod360 ar (- d) \<notin> set D) todo)"
  "length (phase (append_mirrors ar opp D todo ds)) =
     length (phase ds) + length (filter (\<lambda>d. np_mod360 ar (- d) \<notin> set D) todo)"
  "omega (append_mirrors ar opp D todo ds) = omega ds"
  by (simp_all add: append_mirrors_def Let_def)

lemma append_mirrors_cu:
  "complex_unit (append_mirrors ar opp D todo ds) =
     map_option (\<lambda>cu. cu @ map (\<lambda>d. cu ! first_index D d)
        (filter (\<lambda>d. np_mod360 ar (- d) \<notin> set D) todo)) (complex_unit ds)"
  by (simp add: append_mirrors_def Let_def)

lemma sortby_wave_direction_sel:
  "wave_direction (sortby_wave_direction ds) = isel (argsort (wave_direction ds)) (wave_direction ds)"
  "amplitude (sortby_wave_direction ds) = isel (argsort (wave_direction ds)) (amplitude ds)"
  "phase (sortby_wave_direction ds) = isel (argsort (wave_direction ds)) (phase ds)"
  "complex_unit (sortby_wave_direction ds) = map_option (isel (argsort (wave_direction ds))) (complex_unit ds)"
  "omega (sortby_wave_direction ds) = omega ds"
  by (simp_all add: sortby_wave_direction_def Let_def)

lemma outer_ok_append_mirrors: "outer_ok ds \<Longrightarrow> outer_ok (append_mirrors ar opp D todo ds)"
  by (cases "complex_unit ds") (simp_all add: outer_ok_def append_mirrors_sel append_mirrors_cu)

lemma outer_ok_sortby: "outer_ok (sortby_wave_direction ds)"
  by (cases "complex_unit ds")
     (simp_all add: outer_ok_def sortby_wave_direction_sel isel_length argsort_length)

lemma dataset_ok_outer: "dataset_ok ds \<Longrightarrow> outer_ok ds"
  by (cases "complex_unit ds") (simp_all add: outer_ok_def dataset_ok_def shape_ok_def)

lemma add_symmetry_xz_closed_form_outer:
  assumes ok: "outer_ok (data self)"
    and dist: "distinct (wave_direction (data self))"
    and m: "mode self = Mode m"
  shows "add_symmetry_xz ar self =
           Inr (self\<lparr> data := sortby_wave_direction
                  (append_mirrors ar (m \<in> {SWAY, ROLL, YAW})
                     (wave_direction (data self)) (wave_direction (data self)) (data self)) \<rparr>)"
proof -
  let ?D = "wave_direction (data self)"
  have loop: "symmetry_loop ar opp ?D ?D (data self) = Inr (append_mirrors ar opp ?D ?D (data self))" for opp
    using ok dist
    by (intro symmetry_loop_closed_form[where E = "[]"])
       (auto simp: outer_ok_def split: option.splits)
  show ?thesis
    using m by (cases m) (simp_all add: add_symmetry_xz_def loop)
qed

subsection \<open>Axes on which mirroring is an involution\<close>

lemma mirror_inj_on:
  assumes "\<forall>h \<in> set D. np_mod360 ar (- np_mod360 ar (- h)) = h"
  shows "inj_on (\<lambda>d. np_mod360 ar (- d)) (set D)"
proof (rule inj_onI)
  fix x y assume x: "x \<in> set D" and y: "y \<in> set D"
    and e: "np_mod360 ar (- x) = np_mod360 ar (- y)"
  have "x = np_mod360 ar (- np_mod360 ar (- x))" using assms x by simp
  also have "\<dots> = np_mod360 ar (- np_mod360 ar (- y))" by (simp only: e)
  also have "\<dots> = y" using assms y by simp
  finally show "x = y" .
qed

lemma mirrored_axis_distinct:
  assumes dist: "distinct D"
    and invol: "\<forall>h \<in> set D. np_mod360 ar (- np_mod360 ar (- h)) = h"
  shows "distinct (D @ map (\<lambda>d. np_mod360 ar (- d)) (filter (\<lambda>d. np_mod360 ar (- d) \<notin> set D) D))"
proof -
  define news where "news = filter (\<lambda>d. np_mod360 ar (- d) \<notin> set D) D"
  have sub: "set news \<subseteq> set D" by (simp add: news_def)
  have "inj_on (\<lambda>d. np_mod360 ar (- d)) (set news)"
    by (rule inj_on_subset[OF mirror_inj_on[OF invol] sub])
  moreover have "distinct news" using dist by (simp add: news_def)
  ultimately have d2: "distinct (map (\<lambda>d. np_mod360 ar (- d)) news)" by (simp add: distinct_map)
  have d3: "set D \<inter> set (map (\<lambda>d. np_mod360 ar (- d)) news) = {}"
  proof (rule ccontr)
    assume "set D \<inter> set (map (\<lambda>d. np_mod360 ar (- d)) news) \<noteq> {}"
    then obtain x where "x \<in> set D" "x \<in> set (map (\<lambda>d. np_mod360 ar (- d)) news)" by blast
    then obtain k where "k \<in> set news" "x = np_mod360 ar (- k)" by (auto simp: image_iff)
    then have "x \<notin> set D" by (simp add: news_def)
    with \<open>x \<in> set D\<close> show False by simp
  qed
  show ?thesis
    unfolding news_def[symmetric] distinct_append using dist d2 d3 by blast
qed

lemma mirrored_axis_closed:
  assumes invol: "\<forall>h \<in> set D. np_mod360 ar (- np_mod360 ar (- h)) = h"
    and d: "d \<in> set (D @ map (\<lambda>d. np_mod360 ar (- d)) (filter (\<lambda>d. np_mod360 ar (- d) \<notin> set D) D))"
  shows "np_mod360 ar (- d) \<in> set (D @ map (\<lambda>d. np_mod360 ar (- d)) (filter (\<lambda>d. np_mod360 ar (- d) \<notin> set D) D))"
proof -
  define news where "news = filter (\<lambda>d. np_mod360 ar (- d) \<notin> set D) D"
  have mem: "k \<in> set news \<longleftrightarrow> k \<in> set D \<and> np_mod360 ar (- k) \<notin> set D" for k
    by (simp add: news_def)
  have d': "d \<in> set D \<or> d \<in> (\<lambda>d. np_mod360 ar (- d)) ` set news"
    using d unfolding news_def[symmetric] by simp
  have "np_mod360 ar (- d) \<in> set D \<or> np_mod360 ar (- d) \<in> (\<lambda>d. np_mod360 ar (- d)) ` set news"
  proof (cases "d \<in> set D")
    case True
    show ?thesis
    proof (cases "np_mod360 ar (- d) \<in> set D")
      case True
      then show ?thesis by simp
    next
      case False
      with \<open>d \<in> set D\<close> have "d \<in> set news" by (simp add: mem)
      then show ?thesis by (simp add: image_iff) blast
    qed
  next
    case False
    with d' obtain k where k: "k \<in> set news" "d = np_mod360 ar (- k)" by blast
    then have kD: "k \<in> set D" by (simp add: mem)
    then have "np_mod360 ar (- np_mod360 ar (- k)) = k" using invol by simp
    then have "np_mod360 ar (- d) = k" by (simp only: k(2))
    then show ?thesis using kD by (simp only: simp_thms)
  qed
  then show ?thesis unfolding news_def[symmetric] by simp
qed

text \<open>Headings that are whole numbers of degrees in \<open>[0, 360)\<close>: their mirror is computed
  without rounding error by every rounding that leaves the whole numbers up to 360 as
  they are, as the rounding to doubles does, and mirroring is an involution on them.\<close>

lemma np_mod360_mirror:
  assumes "0 \<le> h" "h < 360"
  shows "np_mod360 ar (- h) = (if h = 0 then 0 else rnd ar (360 - h))"
proof (cases "h = 0")
  case True
  then show ?thesis by (simp add: np_mod360_def)
next
  case False
  have "\<lfloor>- h / 360\<rfloor> = - 1"
    using assms False by (intro floor_unique) auto
  then show ?thesis using False assms by (simp add: np_mod360_def)
qed

lemma np_mod360_mirror_int:
  assumes rfix: "\<forall>n::int. 0 \<le> n \<and> n \<le> 360 \<longrightarrow> rnd ar (of_int n) = of_int n"
    and k: "0 \<le> k" "k < 360"
  shows "np_mod360 ar (- of_int k) = (if k = 0 then 0 else of_int (360 - k))"
proof -
  have "rnd ar (of_int (360 - k)) = of_int (360 - k)"
    by (rule rfix[rule_format]) (use k in auto)
  then have "rnd ar (360 - of_int k) = of_int (360 - k)" by simp
  then show ?thesis using np_mod360_mirror[of "of_int k" ar] k by simp
qed

lemma mirror_involution_int:
  assumes rfix: "\<forall>n::int. 0 \<le> n \<and> n \<le> 360 \<longrightarrow> rnd ar (of_int n) = of_int n"
    and k: "0 \<le> k" "k < 360"
  shows "np_mod360 ar (- np_mod360 ar (- of_int k)) = of_int k"
proof (cases "k = 0")
  case True
  then show ?thesis by (simp add: np_mod360_def)
next
  case False
  have m: "np_mod360 ar (- of_int k) = of_int (360 - k)"
    using np_mod360_mirror_int[OF rfix k] False by simp
  have "np_mod360 ar (- of_int (360 - k)) = of_int (360 - (360 - k))"
    using np_mod360_mirror_int[OF rfix, of "360 - k"] k False by simp
  then show ?thesis by (simp add: m)
qed

subsection \<open>Entries of a dense grid\<close>



subsection \<open>Arithmetic on doubles\<close>

lemma max_f64_pos: "0 < max_f64"
  by (simp add: max_f64_def)


lemma fl_cases:
  "fl r x = (if max_f64 < r x then PInf else if r x < - max_f64 then NInf else Fin (r x))"
  by (simp add: fl_def Let_def)

lemma fneg_add_pi_Fin:
  "fneg_add_pi ar (Fin x) =
     (if max_f64 < rnd ar (- x + rnd ar pi) then PInf
      else if rnd ar (- x + rnd ar pi) < - max_f64 then NInf
      else Fin (rnd ar (- x + rnd ar pi)))"
  by (simp add: fneg_add_pi_def f_add_def fl_cases)

lemma fneg_add_pi_nonfinite:
  "fneg_add_pi ar NaN = NaN" "fneg_add_pi ar PInf = NInf" "fneg_add_pi ar NInf = PInf"
  by (simp_all add: fneg_add_pi_def f_add_def)

lemma f_mul_Fin:
  "f_mul r (Fin a) (Fin f) =
     (if max_f64 < r (a * f) then PInf else if r (a * f) < - max_f64 then NInf else Fin (r (a * f)))"
  by (simp add: f_mul_def fl_cases)

lemma f_mul_nonfinite:
  "f_mul r NaN (Fin f) = NaN"
  "f_mul r PInf (Fin f) = (if f = 0 then NaN else if 0 < f then PInf else NInf)"
  "f_mul r NInf (Fin f) = (if f = 0 then NaN else if 0 < f then NInf else PInf)"
  by (auto simp: f_mul_def sgn_if)

subsection \<open>Modulus and argument of \<open>a * exp(1j * p)\<close> in exact arithmetic\<close>


lemma one_le_max_f64: "1 \<le> max_f64"
  by (simp add: max_f64_def)











lemma cos_sin_in_range:
  "\<not> max_f64 < cos x" "\<not> cos x < - max_f64" "\<not> max_f64 < sin x" "\<not> sin x < - max_f64"
  "\<not> max_f64 < 0" "\<not> 0 < - max_f64" "\<not> max_f64 < 1"
proof -
  have "cos x \<le> 1" "- 1 \<le> cos x" "sin x \<le> 1" "- 1 \<le> sin x" by simp_all
  then show "\<not> max_f64 < cos x" "\<not> cos x < - max_f64" "\<not> max_f64 < sin x" "\<not> sin x < - max_f64"
    "\<not> max_f64 < 0" "\<not> 0 < - max_f64" "\<not> max_f64 < 1"
    using one_le_max_f64 by linarith+
qed

lemma Arg_cis_1: "Arg (Complex (cos 1) (sin 1)) = 1"
proof (rule cis_Arg_unique)
  have "Complex (cos 1) (sin 1) = cis 1" by (simp add: cis.ctr)
  then show "sgn (Complex (cos 1) (sin 1)) = cis 1" by (simp only: sgn_cis)
  show "- pi < 1" using pi_ge_two by simp
  show "1 \<le> pi" using pi_ge_two by simp
qed

lemma max_f64_two: "\<not> max_f64 < 2" "\<not> 2 < - max_f64"
  by (simp_all add: max_f64_def)


section \<open>Construction\<close>

text \<open>C10. A freshly constructed \<open>Rao\<close> is the dense 2 x 2 grid with heading axis
  \<open>[0, 180]\<close>, frequency axis \<open>[0, 4]\<close>, every amplitude and every phase equal to 0, no
  stored phase-vector channel, and an unset component tag.\<close>

theorem Rao_init_grid:
  "wave_direction (data Rao_init) = [0, 180] \<and>
   omega (data Rao_init) = [0, 4] \<and>
   amplitude (data Rao_init) = [[Fin 0, Fin 0], [Fin 0, Fin 0]] \<and>
   amplitude_dtype (data Rao_init) = Float64 \<and>
   phase (data Rao_init) = [[Fin 0, Fin 0], [Fin 0, Fin 0]] \<and>
   complex_unit (data Rao_init) = None \<and>
   mode Rao_init = PyNone \<and>
   dataset_ok (data Rao_init)"
  by (simp add: Rao_init_def dataset_ok_def shape_ok_def)


section \<open>Scaling\<close>

text \<open>C5. For a grid whose amplitude is an array of doubles and a finite factor \<open>f\<close>,
  \<open>scale\<close> raises a domain error (\<open>ValueError\<close>) if and only if \<open>f < 0\<close>; the object is not
  assigned to before the raise, so it stays as it was. For \<open>f \<ge> 0\<close> every amplitude entry
  is replaced by its product with \<open>f\<close> in the arithmetic of doubles: a finite entry \<open>a\<close> by
  the rounded value of \<open>a * f\<close>, or by the infinity of that sign when the rounded value is
  beyond the largest double; NaN by NaN; an infinite entry by itself, and by NaN for
  \<open>f = 0\<close>. The phase values, the heading axis, the frequency axis (and the tag) are
  unchanged.\<close>

theorem scale_domain:
  assumes "amplitude_dtype (data self) = Float64"
  shows "((\<exists>e. scale ar self (Fin f) = Inl e) \<longleftrightarrow> f < 0) \<and>
   (f < 0 \<longrightarrow> scale ar self (Fin f) = Inl ValueError) \<and>
   (0 \<le> f \<longrightarrow>
      (\<exists>r. scale ar self (Fin f) = Inr r \<and>
           length (amplitude (data r)) = length (amplitude (data self)) \<and>
           (\<forall>i < length (amplitude (data self)).
              length (amplitude (data r) ! i) = length (amplitude (data self) ! i) \<and>
              (\<forall>j < length (amplitude (data self) ! i).
                 (\<forall>a. amplitude (data self) ! i ! j = Fin a \<longrightarrow>
                    amplitude (data r) ! i ! j =
                      (if max_f64 < rnd ar (a * f) then PInf
                       else if rnd ar (a * f) < - max_f64 then NInf
                       else Fin (rnd ar (a * f)))) \<and>
                 (amplitude (data self) ! i ! j = NaN \<longrightarrow> amplitude (data r) ! i ! j = NaN) \<and>
                 (amplitude (data self) ! i ! j = PInf \<longrightarrow>
                    amplitude (data r) ! i ! j = (if f = 0 then NaN else PInf)) \<and>
                 (amplitude (data self) ! i ! j = NInf \<longrightarrow>
                    amplitude (data r) ! i ! j = (if f = 0 then NaN else NInf)))) \<and>
           amplitude_dtype (data r) = Float64 \<and>
           phase (data r) = phase (data self) \<and>
           wave_direction (data r) = wave_direction (data self) \<and>
           omega (data r) = omega (data self) \<and>
           complex_unit (data r) = complex_unit (data self) \<and>
           mode r = mode self))"
  using assms by (auto simp: scale_def f_mul_Fin f_mul_nonfinite)

theorem scale_domain_witness:
  "scale exact roll30 (Fin (- 1)) = Inl ValueError \<and>
   (\<exists>r. scale exact roll30 (Fin 3) = Inr r \<and> amplitude (data r) ! 0 ! 0 = Fin 6 \<and>
        phase (data r) = [[Fin 1]] \<and> wave_direction (data r) = [30] \<and> omega (data r) = [1])"
  using scale_domain[of roll30 exact "- 1"] scale_domain[of roll30 exact 3]
  by (auto simp: roll30_def exact_def max_f64_def)

text \<open>An amplitude that is an array of integers is not scaled by the factor 0.5: the
  call fails, although the factor is not negative.\<close>

theorem scale_int_amplitude:
  "scale exact int_grid (Fin (1 / 2)) = Inl TypeError \<and> \<not> (1 / 2 < (0 :: real))"
  by (simp add: scale_def int_grid_def)


section \<open>Symmetry expansion\<close>

text \<open>C1. In a grid of distinct headings with one of the six components, for every
  heading \<open>h\<close> present whose mirror \<open>np.mod(-h, 360)\<close> is not present, \<open>add_symmetry_xz\<close>
  returns a grid with a column at the mirror heading. The label of the column is
  \<open>q = -h - 360 * floor (-h / 360)\<close>, the value of \<open>(-h) mod 360\<close>, rounded to a double when
  \<open>h > 0\<close>. Its amplitude is the amplitude of the column at \<open>h\<close>. For SWAY, ROLL and YAW a
  finite phase \<open>x\<close> of the column at \<open>h\<close> has become the rounded value of \<open>-x + pi\<close>, where
  \<open>pi\<close> itself is rounded (in exact arithmetic this is \<open>-x + pi\<close>, hence congruent to it
  modulo \<open>2 pi\<close>), NaN has stayed NaN and an infinite phase has changed its sign. For
  SURGE, HEAVE and PITCH the phase is the phase of the column at \<open>h\<close>.\<close>

theorem add_symmetry_xz_mirror_column:
  assumes ok: "dataset_ok (data self)"
    and dist: "distinct (wave_direction (data self))"
    and m: "mode self = Mode m"
    and i: "i < length (wave_direction (data self))"
    and new: "np_mod360 ar (- (wave_direction (data self) ! i)) \<notin> set (wave_direction (data self))"
  shows "\<exists>r j. add_symmetry_xz ar self = Inr r \<and> j < length (wave_direction (data r)) \<and>
           wave_direction (data r) ! j =
             (let h = wave_direction (data self) ! i;
                  q = - h - 360 * of_int \<lfloor>- h / 360\<rfloor>
              in if 0 < h \<and> q \<noteq> 0 then rnd ar q else q) \<and>
           amplitude (data r) ! j = amplitude (data self) ! i \<and>
           (m \<in> {SURGE, HEAVE, PITCH} \<longrightarrow> phase (data r) ! j = phase (data self) ! i) \<and>
           (m \<in> {SWAY, ROLL, YAW} \<longrightarrow>
              length (phase (data r) ! j) = length (phase (data self) ! i) \<and>
              (\<forall>k < length (phase (data self) ! i).
                 (\<forall>x. phase (data self) ! i ! k = Fin x \<longrightarrow>
                    \<bar>rnd ar (- x + rnd ar pi)\<bar> \<le> max_f64 \<longrightarrow>
                    phase (data r) ! j ! k = Fin (rnd ar (- x + rnd ar pi))) \<and>
                 (phase (data self) ! i ! k = NaN \<longrightarrow> phase (data r) ! j ! k = NaN) \<and>
                 (phase (data self) ! i ! k = PInf \<longrightarrow> phase (data r) ! j ! k = NInf) \<and>
                 (phase (data self) ! i ! k = NInf \<longrightarrow> phase (data r) ! j ! k = PInf)))"
proof -
  let ?ds = "data self"
  let ?D = "wave_direction ?ds"
  let ?opp = "m \<in> {SWAY, ROLL, YAW}"
  let ?h = "?D ! i"
  define news where "news = filter (\<lambda>d. np_mod360 ar (- d) \<notin> set ?D) ?D"
  define ds1 where "ds1 = append_mirrors ar ?opp ?D ?D ?ds"
  define r where "r = self\<lparr> data := sortby_wave_direction ds1 \<rparr>"
  have res: "add_symmetry_xz ar self = Inr r"
    unfolding r_def ds1_def by (rule add_symmetry_xz_closed_form[OF ok dist m])
  have lens: "length (amplitude ?ds) = length ?D" "length (phase ?ds) = length ?D"
    using ok by (simp_all add: dataset_ok_def shape_ok_def)
  have "?h \<in> set news" using i new by (simp add: news_def)
  then obtain q where q: "q < length news" "news ! q = ?h"
    by (auto simp: in_set_conv_nth)
  let ?k = "length ?D + q"
  have fi: "first_index ?D ?h = i" using dist i by (rule first_index_nth)
  have wd1: "wave_direction ds1 = ?D @ map (\<lambda>d. np_mod360 ar (- d)) news"
    and am1: "amplitude ds1 = amplitude ?ds @ map (\<lambda>d. amplitude ?ds ! first_index ?D d) news"
    and ph1: "phase ds1 = phase ?ds @
            map (\<lambda>d. if ?opp then map (fneg_add_pi ar) (phase ?ds ! first_index ?D d)
                      else phase ?ds ! first_index ?D d) news"
    by (simp_all add: ds1_def append_mirrors_def news_def Let_def)
  have k: "?k < length (wave_direction ds1)" using q by (simp add: wd1)
  have c1: "wave_direction ds1 ! ?k = np_mod360 ar (- ?h)" using q by (simp add: wd1 nth_append)
  have c2: "amplitude ds1 ! ?k = amplitude ?ds ! i"
    using q fi by (simp add: am1 nth_append lens)
  have c3: "phase ds1 ! ?k = (if ?opp then map (fneg_add_pi ar) (phase ?ds ! i) else phase ?ds ! i)"
    using q fi by (simp add: ph1 nth_append lens)
  obtain j where j: "j < length (argsort (wave_direction ds1))" "argsort (wave_direction ds1) ! j = ?k"
    using isel_nth_ex[OF k refl] by blast
  have j1: "j < length (wave_direction (data r))"
    using j by (simp add: r_def sortby_wave_direction_def Let_def isel_def)
  have "wave_direction (data r) ! j = np_mod360 ar (- ?h)"
    using j c1 by (simp add: r_def sortby_wave_direction_def Let_def isel_def)
  then have j2: "wave_direction (data r) ! j =
             (let h = ?h; q = - h - 360 * of_int \<lfloor>- h / 360\<rfloor>
              in if 0 < h \<and> q \<noteq> 0 then rnd ar q else q)"
    by (simp add: np_mod360_def Let_def)
  have j3: "amplitude (data r) ! j = amplitude ?ds ! i"
    using j c2 by (simp add: r_def sortby_wave_direction_def Let_def isel_def)
  have j4: "phase (data r) ! j = (if ?opp then map (fneg_add_pi ar) (phase ?ds ! i) else phase ?ds ! i)"
    using j c3 by (simp add: r_def sortby_wave_direction_def Let_def isel_def)
  have j5: "m \<in> {SURGE, HEAVE, PITCH} \<longrightarrow> phase (data r) ! j = phase ?ds ! i"
    using j4 by auto
  have j6: "?opp \<longrightarrow>
              length (phase (data r) ! j) = length (phase ?ds ! i) \<and>
              (\<forall>k < length (phase ?ds ! i).
                 (\<forall>x. phase ?ds ! i ! k = Fin x \<longrightarrow>
                    \<bar>rnd ar (- x + rnd ar pi)\<bar> \<le> max_f64 \<longrightarrow>
                    phase (data r) ! j ! k = Fin (rnd ar (- x + rnd ar pi))) \<and>
                 (phase ?ds ! i ! k = NaN \<longrightarrow> phase (data r) ! j ! k = NaN) \<and>
                 (phase ?ds ! i ! k = PInf \<longrightarrow> phase (data r) ! j ! k = NInf) \<and>
                 (phase ?ds ! i ! k = NInf \<longrightarrow> phase (data r) ! j ! k = PInf))"
  proof
    assume opp: ?opp
    have eq: "phase (data r) ! j = map (fneg_add_pi ar) (phase ?ds ! i)"
      using j4 opp by simp
    show "length (phase (data r) ! j) = length (phase ?ds ! i) \<and>
              (\<forall>k < length (phase ?ds ! i).
                 (\<forall>x. phase ?ds ! i ! k = Fin x \<longrightarrow>
                    \<bar>rnd ar (- x + rnd ar pi)\<bar> \<le> max_f64 \<longrightarrow>
                    phase (data r) ! j ! k = Fin (rnd ar (- x + rnd ar pi))) \<and>
                 (phase ?ds ! i ! k = NaN \<longrightarrow> phase (data r) ! j ! k = NaN) \<and>
                 (phase ?ds ! i ! k = PInf \<longrightarrow> phase (data r) ! j ! k = NInf) \<and>
                 (phase ?ds ! i ! k = NInf \<longrightarrow> phase (data r) ! j ! k = PInf))"
      unfolding eq by (auto simp: fneg_add_pi_Fin fneg_add_pi_nonfinite)
  qed
  show ?thesis using res j1 j2 j3 j5 j6 by blast
qed

theorem add_symmetry_xz_mirror_column_witness:
  "\<exists>r j. add_symmetry_xz exact roll30 = Inr r \<and> j < length (wave_direction (data r)) \<and>
           wave_direction (data r) ! j = 330 \<and>
           amplitude (data r) ! j = [Fin 2] \<and>
           phase (data r) ! j ! 0 = Fin (- 1 + pi)"
proof -
  have "\<bar>- 1 + pi\<bar> \<le> max_f64"
    using pi_ge_two pi_less_4 by (simp add: max_f64_def)
  then show ?thesis
    using add_symmetry_xz_mirror_column[of roll30 ROLL 0 exact]
    by (auto simp: roll30_def dataset_ok_def shape_ok_def np_mod360_def exact_def)
qed


text \<open>C4. With the tag unset, or set to a value that is no \<open>MotionMode\<close>, the call
  fails, but with \<open>NameError\<close> instead of the \<open>ValueError\<close> that the source means to
  raise: the message is formatted from the unbound name \<open>mode\<close>.\<close>

theorem add_symmetry_xz_unset_mode:
  "add_symmetry_xz ar Rao_init = Inl NameError \<and>
   add_symmetry_xz ar (Rao_init\<lparr> mode := PyOther ''ROLL'' \<rparr>) = Inl NameError"
  by (simp add: add_symmetry_xz_def Rao_init_def)


text \<open>C7. In a grid of distinct headings with one of the six components, on whose
  heading axis mirroring is an involution, that is \<open>np.mod(-np.mod(-h, 360), 360) = h\<close>
  for every heading \<open>h\<close> of the axis, \<open>add_symmetry_xz\<close> succeeds and a second application
  returns the grid of the first unchanged: it adds no column and changes no amplitude or
  phase value.\<close>

theorem add_symmetry_xz_idempotent:
  assumes ok: "dataset_ok (data self)"
    and dist: "distinct (wave_direction (data self))"
    and m: "mode self = Mode m"
    and invol: "\<forall>h \<in> set (wave_direction (data self)). np_mod360 ar (- np_mod360 ar (- h)) = h"
  shows "\<exists>r. add_symmetry_xz ar self = Inr r \<and> add_symmetry_xz ar r = Inr r"
proof -
  let ?D = "wave_direction (data self)"
  let ?opp = "m \<in> {SWAY, ROLL, YAW}"
  define ds1 where "ds1 = append_mirrors ar ?opp ?D ?D (data self)"
  define r where "r = self\<lparr> data := sortby_wave_direction ds1 \<rparr>"
  let ?A = "wave_direction ds1"
  let ?R = "wave_direction (data r)"
  have first: "add_symmetry_xz ar self = Inr r"
    unfolding r_def ds1_def by (rule add_symmetry_xz_closed_form[OF ok dist m])
  have A: "?A = ?D @ map (\<lambda>d. np_mod360 ar (- d)) (filter (\<lambda>d. np_mod360 ar (- d) \<notin> set ?D) ?D)"
    by (simp add: ds1_def append_mirrors_sel)
  have distA: "distinct ?A"
    unfolding A by (rule mirrored_axis_distinct[OF dist invol])
  have closedA: "\<forall>d \<in> set ?A. np_mod360 ar (- d) \<in> set ?A"
    unfolding A using mirrored_axis_closed[OF invol] by blast
  have R: "?R = isel (argsort ?A) ?A"
    by (simp add: r_def sortby_wave_direction_sel)
  have setR: "set ?R = set ?A" unfolding R by (rule isel_argsort_set[OF refl])
  have distR: "distinct ?R" unfolding R by (rule isel_argsort_distinct[OF distA refl])
  have sortedR: "sorted ?R" unfolding R by (rule isel_argsort_self_sorted)
  have closedR: "\<forall>d \<in> set ?R. np_mod360 ar (- d) \<in> set ?R"
    using closedA unfolding setR .
  have okR: "outer_ok (data r)" by (simp add: r_def outer_ok_sortby)
  have mR: "mode r = Mode m" using m by (simp add: r_def)
  have "add_symmetry_xz ar r =
          Inr (r\<lparr> data := sortby_wave_direction (append_mirrors ar ?opp ?R ?R (data r)) \<rparr>)"
    by (rule add_symmetry_xz_closed_form_outer[OF okR distR mR])
  also have "append_mirrors ar ?opp ?R ?R (data r) = data r"
    by (rule append_mirrors_nothing[OF closedR])
  also have "sortby_wave_direction (data r) = data r"
    using okR sortedR by (intro sortby_wave_direction_sorted) (simp_all add: outer_ok_def)
  also have "r\<lparr> data := data r \<rparr> = r" by simp
  finally have "add_symmetry_xz ar r = Inr r" .
  with first show ?thesis by blast
qed

theorem add_symmetry_xz_idempotent_witness:
  "\<exists>r. add_symmetry_xz exact roll30 = Inr r \<and> add_symmetry_xz exact r = Inr r"
  using add_symmetry_xz_idempotent[of roll30 ROLL exact]
  by (simp add: roll30_def dataset_ok_def shape_ok_def np_mod360_def exact_def)

text \<open>On the heading \<open>-30\<close> mirroring is no involution: the mirror of \<open>-30\<close> is \<open>30\<close>, but
  the mirror of \<open>30\<close> is \<open>330\<close>. The second application adds a column.\<close>

theorem add_symmetry_xz_twice_differs:
  "add_symmetry_xz exact heave_m30 =
     Inr \<lparr> data = \<lparr> wave_direction = [- 30, 30], omega = [1],
                     amplitude = [[Fin 2], [Fin 2]], amplitude_dtype = Float64,
                     phase = [[Fin 1], [Fin 1]],
                     complex_unit = None \<rparr>, mode = Mode HEAVE \<rparr> \<and>
   add_symmetry_xz exact \<lparr> data = \<lparr> wave_direction = [- 30, 30], omega = [1],
                     amplitude = [[Fin 2], [Fin 2]], amplitude_dtype = Float64,
                     phase = [[Fin 1], [Fin 1]],
                     complex_unit = None \<rparr>, mode = Mode HEAVE \<rparr> =
     Inr \<lparr> data = \<lparr> wave_direction = [- 30, 30, 330], omega = [1],
                     amplitude = [[Fin 2], [Fin 2], [Fin 2]], amplitude_dtype = Float64,
                     phase = [[Fin 1], [Fin 1], [Fin 1]],
                     complex_unit = None \<rparr>, mode = Mode HEAVE \<rparr>"
  by (simp add: add_symmetry_xz_def heave_m30_def sel_wave_direction_def
       concat_wave_direction_def sortby_wave_direction_def argsort_def isel_def np_mod360_def
       exact_def Let_def)

section \<open>Export and import without complex numbers\<close>



section \<open>Regridding of the frequency axis\<close>

text \<open>C8. For every dense grid and every non-empty list of target frequencies, each
  \<open>\<ge> 0\<close> and in any order, \<open>regrid_omega\<close> succeeds and returns a grid whose frequency
  axis is the list of targets in the order in which it was given; the heading axis (and
  the tag) are unchanged.\<close>

theorem regrid_omega_axis:
  assumes "dataset_ok (data self)" and "new_omega \<noteq> []" and "\<forall>w \<in> set new_omega. 0 \<le> w"
  shows "\<exists>r. regrid_omega ar self new_omega = Inr r \<and> omega (data r) = new_omega \<and>
       wave_direction (data r) = wave_direction (data self) \<and> mode r = mode self"
  by (simp add: regrid_omega_def Let_def complex_unit_to_phase_def complex_unit_delete_def
      interp_omega_def sortby_omega_def complex_unit_add_def expand_omega_dim_const_def dup_omega_def)

theorem regrid_omega_axis_witness:
  "\<exists>r. regrid_omega exact roll30 [3, 1, 2] = Inr r \<and> omega (data r) = [3, 1, 2] \<and>
       wave_direction (data r) = [30] \<and> mode r = Mode ROLL"
  using regrid_omega_axis[of roll30 "[3, 1, 2]" exact]
  by (simp add: roll30_def dataset_ok_def shape_ok_def)

text \<open>The targets \<open>[2, 1]\<close> give the frequency axis \<open>[2, 1]\<close>, which is not ascending.\<close>

theorem regrid_omega_keeps_order:
  "regrid_omega exact roll30 [2, 1] =
     Inr \<lparr> data = \<lparr> wave_direction = [30], omega = [2, 1],
                     amplitude = [[Fin 2, Fin 2]], amplitude_dtype = Float64,
                     phase = [[Fin 1, Fin 1]],
                     complex_unit = None \<rparr>,
           mode = Mode ROLL \<rparr> \<and>
   sort [2, 1 :: real] = [1, 2]"
  by (simp add: regrid_omega_def Let_def complex_unit_to_phase_def complex_unit_delete_def
      interp_omega_def sortby_omega_def complex_unit_add_def expand_omega_dim_const_def dup_omega_def
      roll30_def argsort_def isel_def interp_row_def interp_row_c_def lin_def np_exp_1j_def
      np_angle_def as_f64_def f_add_def f_mul_def fl_cases cos_sin_in_range max_f64_two
      exact_def Arg_cis_1)


section \<open>Evaluation at a grid point\<close>




end
